theory Spec2Isabelle
  imports Main
begin

section \<open>File names: sanitising and whitespace\<close>

text \<open>
  Go strings are byte sequences; a \<^typ>\<open>string\<close> is a list of 8-bit characters. Both
  regular expressions of the renamer match ASCII bytes only, and an ASCII byte never occurs
  inside a multi-byte UTF-8 sequence, so replacing at the level of bytes is what
  \<^verbatim>\<open>ReplaceAllString\<close> does.
\<close>

text \<open>
  \<^verbatim>\<open>var pathRegex = regexp.MustCompile(`[%/\?\\\*:\|"<>\n\r]`)\<close>:
  one character of the class, that is one of
  \<^verbatim>\<open>% / ? \ * : | " < >\<close>, line feed and carriage return.
\<close>

definition pathRegex :: "char set" where
  "pathRegex = {CHR ''%'', CHR ''/'', CHR ''?'', CHR 0x5C, CHR ''*'', CHR '':'', CHR ''|'',
                CHR 0x22, CHR ''<'', CHR ''>'', CHR 0x0A, CHR 0x0D}"

text \<open>
  \<^verbatim>\<open>func cleanString(str string) string { return pathRegex.ReplaceAllString(str, "") }\<close>:
  every match is one character, and it is replaced by nothing.
\<close>

definition cleanString :: "string \<Rightarrow> string" where
  "cleanString str = filter (\<lambda>c. c \<notin> pathRegex) str"

text \<open>
  The class \<^verbatim>\<open>\s\<close> of Go's regexp syntax is \<^verbatim>\<open>[\t\n\f\r ]\<close>.
\<close>

definition isSpace :: "char \<Rightarrow> bool" where
  "isSpace c \<longleftrightarrow> c = CHR 0x09 \<or> c = CHR 0x0A \<or> c = CHR 0x0C \<or> c = CHR 0x0D \<or> c = CHR '' ''"

text \<open>
  \<^verbatim>\<open>var spaceRegex = regexp.MustCompile(`\s\s+`)\<close> and
  \<^verbatim>\<open>func truncateSpaces(str string) string { return spaceRegex.ReplaceAllString(str, " ") }\<close>.
  \<^verbatim>\<open>ReplaceAllString\<close> scans from the left and replaces the successive
  non-overlapping matches: at a position where two whitespace characters follow each other
  the greedy \<^verbatim>\<open>\s+\<close> takes every whitespace character that follows, and the whole
  match becomes one space; at any other position the character is copied.
\<close>

function truncateSpaces :: "string \<Rightarrow> string" where
  "truncateSpaces [] = []"
| "truncateSpaces [c] = [c]"
| "truncateSpaces (c # d # cs) =
     (if isSpace c \<and> isSpace d then CHR '' '' # truncateSpaces (dropWhile isSpace cs)
      else c # truncateSpaces (d # cs))"
  by pat_completeness auto
termination
  by (relation "measure length") (auto simp: less_Suc_eq_le intro: le_trans [OF length_dropWhile_le])

text \<open>A string in which no two whitespace characters are adjacent.\<close>

fun noRun :: "string \<Rightarrow> bool" where
  "noRun (c # d # cs) = (\<not> (isSpace c \<and> isSpace d) \<and> noRun (d # cs))"
| "noRun _ = True"

section \<open>Errors\<close>

text \<open>
  A Go \<^verbatim>\<open>error\<close> is an interface value. The code tells three kinds apart: its own
  \<^verbatim>\<open>*mediaExistsError\<close>, the errors it makes itself with \<^verbatim>\<open>errors.New\<close> and
  \<^verbatim>\<open>fmt.Errorf\<close> (a message), and the errors it only passes on, made by the operating
  system, the template engine or a scraper.
\<close>

datatype error = mediaExistsError | errorString string | foreignError string

section \<open>Local subtitles\<close>

text \<open>The part of \<^verbatim>\<open>os.FileInfo\<close> the code reads.\<close>

record FileInfo =
  Name :: string
  Size :: int
  IsDir :: bool

text \<open>\<^verbatim>\<open>os.IsPathSeparator\<close>, on Unix.\<close>

definition IsPathSeparator :: "char \<Rightarrow> bool" where
  "IsPathSeparator c \<longleftrightarrow> c = CHR ''/''"

text \<open>
  \<^verbatim>\<open>filepath.Ext\<close> of the Go standard library:
  \<^verbatim>\<open>
  for i := len(path) - 1; i >= 0 && !os.IsPathSeparator(path[i]); i-- {
      if path[i] == '.' { return path[i:] }
  }
  return ""
  \<close>
  \<open>Ext_loop path n\<close> is the loop at \<open>i = n - 1\<close>, and at its end when \<open>n = 0\<close>.
\<close>

fun Ext_loop :: "string \<Rightarrow> nat \<Rightarrow> string" where
  "Ext_loop path 0 = []"
| "Ext_loop path (Suc i) =
     (if IsPathSeparator (path ! i) then []
      else if path ! i = CHR ''.'' then drop i path
      else Ext_loop path i)"

definition Ext :: "string \<Rightarrow> string" where
  "Ext path = Ext_loop path (length path)"

text \<open>
  \<^verbatim>\<open>strings.Split(s, sep)\<close> for a separator of one byte: the pieces of \<open>s\<close> between the
  occurrences of \<open>sep\<close>, one more than there are occurrences (so \<open>[""]\<close> for the empty
  string). \<open>cur\<close> holds the piece being read, last character first.
\<close>

fun Split_from :: "string \<Rightarrow> char \<Rightarrow> string \<Rightarrow> string list" where
  "Split_from [] sep cur = [rev cur]"
| "Split_from (c # cs) sep cur =
     (if c = sep then rev cur # Split_from cs sep [] else Split_from cs sep (c # cur))"

definition Split :: "string \<Rightarrow> char \<Rightarrow> string list" where
  "Split s sep = Split_from s sep []"

text \<open>
  \<^verbatim>\<open>type LocalSubtitle struct { os.FileInfo; lang language.Tag }\<close>. The type of language
  tags belongs to \<^verbatim>\<open>golang.org/x/text/language\<close> and stays a type variable.
\<close>

record 'tag LocalSubtitle =
  FileInfo :: FileInfo
  lang :: 'tag

text \<open>
  \<^verbatim>\<open>NewLocalSubtitle\<close>. \<^verbatim>\<open>language.Make\<close> is a function of the external library, a
  parameter here: it returns a tag for every string and no error
  (\<^verbatim>\<open>tag := language.Make(parts[len(parts)-2])\<close>). The index is in range where it is
  read, by the check before it.
\<close>

definition NewLocalSubtitle ::
  "(string \<Rightarrow> 'tag) \<Rightarrow> FileInfo \<Rightarrow> error + 'tag LocalSubtitle" where
  "NewLocalSubtitle Make file =
     (if Ext (Name file) \<noteq> ''.srt'' then
        Inl (errorString ''parsing non subtitle file as subtitle'')
      else
        let parts = Split (Name file) (CHR ''.'') in
        if length parts < 2 then Inl (errorString ''error parsing subtitle file'')
        else Inr \<lparr>FileInfo = file, lang = Make (parts ! (length parts - 2))\<rparr>)"

text \<open>\<^verbatim>\<open>func (l *LocalSubtitle) IsHI() bool { return false }\<close>\<close>

definition IsHI :: "'tag LocalSubtitle \<Rightarrow> bool" where
  "IsHI l = False"

text \<open>
  An instance of \<^verbatim>\<open>language.Make\<close> for evaluating on concrete names: the tag of a few
  two-letter codes, and the undetermined tag, the library's default when parsing fails,
  for every other string.
\<close>

datatype Tag = Und | Lang string

definition demo_Make :: "string \<Rightarrow> Tag" where
  "demo_Make s = (if s \<in> set [''en'', ''da'', ''de'', ''fr'', ''es''] then Lang s else Und)"

section \<open>The world outside: log, operating system, media\<close>

text \<open>
  The logger (\<^verbatim>\<open>github.com/apex/log\<close>): an entry has a level, fields and a message. The
  levels in the order of their severity.
\<close>

datatype level = DebugLevel | InfoLevel | WarnLevel | ErrorLevel

fun severity :: "level \<Rightarrow> nat" where
  "severity DebugLevel = 0"
| "severity InfoLevel = 1"
| "severity WarnLevel = 2"
| "severity ErrorLevel = 3"

datatype 'm field = Str string | Media 'm | Err error

record 'm entry =
  Level :: level
  Fields :: "(string \<times> 'm field) list"
  Message :: string

text \<open>
  The state a run goes through: the world of the operating system (the file system), of a
  type \<open>'w\<close> that the code never looks into, and the entries logged so far.
\<close>

record ('w, 'm) state =
  world :: 'w
  logs :: "'m entry list"

definition log :: "level \<Rightarrow> (string \<times> 'm field) list \<Rightarrow> string \<Rightarrow> ('w, 'm) state \<Rightarrow> ('w, 'm) state" where
  "log lvl fs msg s = s\<lparr>logs := logs s @ [\<lparr>Level = lvl, Fields = fs, Message = msg\<rparr>]\<rparr>"

text \<open>
  The calls into the Go standard library that the renamers make, as parameters: each takes
  the world and returns its error (\<open>None\<close> for \<^verbatim>\<open>nil\<close>) and the world it leaves.
  \<^verbatim>\<open>os.Stat\<close> only reads. \<open>'f\<close> is the type of open files. \<^verbatim>\<open>os.MkdirAll\<close> is always
  called with the permission \<^verbatim>\<open>os.ModeDir\<close>, which is left out.
\<close>

record ('w, 'f) OS =
  os_Stat :: "string \<Rightarrow> 'w \<Rightarrow> error option"
  os_Remove :: "string \<Rightarrow> 'w \<Rightarrow> error option \<times> 'w"
  os_MkdirAll :: "string \<Rightarrow> 'w \<Rightarrow> error option \<times> 'w"
  os_Create :: "string \<Rightarrow> 'w \<Rightarrow> (error + 'f) \<times> 'w"
  io_Copy :: "'f \<Rightarrow> 'f \<Rightarrow> 'w \<Rightarrow> error option \<times> 'w"
  file_Close :: "'f \<Rightarrow> 'w \<Rightarrow> 'w"
  os_Rename :: "string \<Rightarrow> string \<Rightarrow> 'w \<Rightarrow> error option \<times> 'w"
  os_Symlink :: "string \<Rightarrow> string \<Rightarrow> 'w \<Rightarrow> error option \<times> 'w"
  os_Link :: "string \<Rightarrow> string \<Rightarrow> 'w \<Rightarrow> error option \<times> 'w"
  filepath_Dir :: "string \<Rightarrow> string"
  filepath_Join :: "string \<Rightarrow> string \<Rightarrow> string"

text \<open>
  \<^verbatim>\<open>types.Local\<close>: a file (\<^verbatim>\<open>Name()\<close>) that can be opened. \<open>Pather\<close> is \<open>Some p\<close> when
  the value implements \<^verbatim>\<open>types.Pather\<close>, with \<^verbatim>\<open>Path() = p\<close>, and \<open>None\<close> when the type
  assertion \<^verbatim>\<open>local.(types.Pather)\<close> fails.
\<close>

record ('w, 'f) Local = FileInfo +
  Open :: "'w \<Rightarrow> (error + 'f) \<times> 'w"
  Pather :: "string option"

section \<open>The renamers\<close>

text \<open>\<^verbatim>\<open>type renamer func(types.Local, string) error\<close>\<close>

type_synonym ('w, 'f, 'm) renamer =
  "('w, 'f) OS \<Rightarrow> ('w, 'f) Local \<Rightarrow> string \<Rightarrow> ('w, 'm) state \<Rightarrow> error option \<times> ('w, 'm) state"

text \<open>
  \<^verbatim>\<open>copyRenamer\<close>. The two deferred \<^verbatim>\<open>Close\<close> calls run when the function returns,
  the last deferred first.
\<close>

definition copyRenamer :: "('w, 'f, 'm) renamer" where
  "copyRenamer os local dest s =
     (case os_MkdirAll os (filepath_Dir os dest) (world s) of
        (Some err, w1) \<Rightarrow> (Some err, s\<lparr>world := w1\<rparr>)
      | (None, w1) \<Rightarrow>
          (case Open local w1 of
             (Inl err, w2) \<Rightarrow> (Some err, s\<lparr>world := w2\<rparr>)
           | (Inr file, w2) \<Rightarrow>
               (case os_Create os dest w2 of
                  (Inl err, w3) \<Rightarrow> (Some err, s\<lparr>world := file_Close os file w3\<rparr>)
                | (Inr out, w3) \<Rightarrow>
                    (case io_Copy os out file w3 of
                       (Some err, w4) \<Rightarrow>
                         (Some err, s\<lparr>world := file_Close os file (file_Close os out w4)\<rparr>)
                     | (None, w4) \<Rightarrow>
                         (None, log DebugLevel [(''path'', Str dest)] ''Media copied''
                                  (s\<lparr>world := file_Close os file (file_Close os out w4)\<rparr>))))))"

definition moveRenamer :: "('w, 'f, 'm) renamer" where
  "moveRenamer os local dest s =
     (case os_MkdirAll os (filepath_Dir os dest) (world s) of
        (Some err, w1) \<Rightarrow> (Some err, s\<lparr>world := w1\<rparr>)
      | (None, w1) \<Rightarrow>
          (case Pather local of
             None \<Rightarrow> (Some (errorString ''can't move media without a path''), s\<lparr>world := w1\<rparr>)
           | Some mpath \<Rightarrow>
               (case os_Rename os mpath dest w1 of
                  (Some err, w2) \<Rightarrow> (Some err, s\<lparr>world := w2\<rparr>)
                | (None, w2) \<Rightarrow>
                    (None, log DebugLevel [(''path'', Str dest)] ''Media moved''
                             (s\<lparr>world := w2\<rparr>)))))"

definition symlinkRenamer :: "('w, 'f, 'm) renamer" where
  "symlinkRenamer os local dest s =
     (case os_MkdirAll os (filepath_Dir os dest) (world s) of
        (Some err, w1) \<Rightarrow> (Some err, s\<lparr>world := w1\<rparr>)
      | (None, w1) \<Rightarrow>
          (case Pather local of
             None \<Rightarrow> (Some (errorString ''can't symlink media without a path''), s\<lparr>world := w1\<rparr>)
           | Some mpath \<Rightarrow>
               (case os_Symlink os mpath dest w1 of
                  (Some err, w2) \<Rightarrow> (Some err, s\<lparr>world := w2\<rparr>)
                | (None, w2) \<Rightarrow>
                    (None, log DebugLevel [(''path'', Str dest)] ''Media symlinked''
                             (s\<lparr>world := w2\<rparr>)))))"

definition hardlinkRenamer :: "('w, 'f, 'm) renamer" where
  "hardlinkRenamer os local dest s =
     (case os_MkdirAll os (filepath_Dir os dest) (world s) of
        (Some err, w1) \<Rightarrow> (Some err, s\<lparr>world := w1\<rparr>)
      | (None, w1) \<Rightarrow>
          (case Pather local of
             None \<Rightarrow> (Some (errorString ''can't hardlink media without a path''), s\<lparr>world := w1\<rparr>)
           | Some mpath \<Rightarrow>
               (case os_Link os mpath dest w1 of
                  (Some err, w2) \<Rightarrow> (Some err, s\<lparr>world := w2\<rparr>)
                | (None, w2) \<Rightarrow>
                    (None, log DebugLevel [(''path'', Str dest)] ''Media hardlinked''
                             (s\<lparr>world := w2\<rparr>)))))"

text \<open>\<^verbatim>\<open>var Renamers = map[string]renamer{...}\<close>: the lookup gives \<open>None\<close> for a missing key.\<close>

definition Renamers :: "string \<Rightarrow> ('w, 'f, 'm) renamer option" where
  "Renamers a =
     (if a = ''copy'' then Some copyRenamer
      else if a = ''move'' then Some moveRenamer
      else if a = ''symlink'' then Some symlinkRenamer
      else if a = ''hardlink'' then Some hardlinkRenamer
      else None)"

text \<open>
  \<^verbatim>\<open>func (r renamer) Rename(local types.Local, dest string, force bool) error\<close>:
  \<^verbatim>\<open>
  _, err := os.Stat(dest)
  if !force && err == nil { return &mediaExistsError{} }
  if err == nil {
      if err := os.Remove(dest); err != nil { return err }
      log.WithField("path", dest).Debug("Removed existing media")
  }
  return r(local, dest)
  \<close>
\<close>

definition Rename ::
  "('w, 'f) OS \<Rightarrow> ('w, 'f, 'm) renamer \<Rightarrow> ('w, 'f) Local \<Rightarrow> string \<Rightarrow> bool \<Rightarrow>
   ('w, 'm) state \<Rightarrow> error option \<times> ('w, 'm) state" where
  "Rename os r local dest force s =
     (let err = os_Stat os dest (world s) in
      if \<not> force \<and> err = None then (Some mediaExistsError, s)
      else if err = None then
        (case os_Remove os dest (world s) of
           (Some err', w1) \<Rightarrow> (Some err', s\<lparr>world := w1\<rparr>)
         | (None, w1) \<Rightarrow>
             r os local dest
               (log DebugLevel [(''path'', Str dest)] ''Removed existing media'' (s\<lparr>world := w1\<rparr>)))
      else r os local dest s)"

section \<open>Scraping\<close>

text \<open>
  A scraper (\<^verbatim>\<open>Scrape(media) (Media, error)\<close>) may reach out to the world. The
  application holds the scrapers and the configuration. \<^verbatim>\<open>provider.IsErrMediaNotSupported\<close>
  is a function of a package that is not part of this development; it is a parameter,
  carried in the same record.
\<close>

type_synonym ('w, 'm) scraper = "'m \<Rightarrow> 'w \<Rightarrow> (error + 'm) \<times> 'w"

datatype tvalue = S string | I int

text \<open>
  A template (\<^verbatim>\<open>*template.Template\<close>) is what \<^verbatim>\<open>Execute\<close> does with the fields of the
  data it is given: an error, or the text written to the buffer.
\<close>

type_synonym template = "(string \<times> tvalue) list \<Rightarrow> error + string"

record ('w, 'm) Application =
  Scrapers :: "('w, 'm) scraper list"
  IsErrMediaNotSupported :: "error \<Rightarrow> bool"
  action :: string
  Strict :: bool
  Force :: bool
  Movies_Template :: "template option"
  Movies_Directory :: string
  TVShows_Template :: "template option"
  TVShows_Directory :: string

text \<open>
  \<^verbatim>\<open>scrapeMedia\<close>: the loop over \<^verbatim>\<open>a.Scrapers()\<close>, on the scrapers that remain.
\<close>

fun scrapeMedia_loop ::
  "(error \<Rightarrow> bool) \<Rightarrow> ('w, 'm) scraper list \<Rightarrow> 'm \<Rightarrow> 'w \<Rightarrow> (error + 'm) \<times> 'w" where
  "scrapeMedia_loop notSupported [] m w =
     (Inl (errorString ''no scrapers to use for media''), w)"
| "scrapeMedia_loop notSupported (s # ss) m w =
     (case s m w of
        (Inl err, w') \<Rightarrow>
          if notSupported err then scrapeMedia_loop notSupported ss m w' else (Inl err, w')
      | (Inr scraped, w') \<Rightarrow> (Inr scraped, w'))"

definition scrapeMedia :: "('w, 'm) Application \<Rightarrow> 'm \<Rightarrow> 'w \<Rightarrow> (error + 'm) \<times> 'w" where
  "scrapeMedia a m w = scrapeMedia_loop (IsErrMediaNotSupported a) (Scrapers a) m w"

text \<open>
  The scrapers of a list, run one after the other from the world \<open>w\<close>, all answered with
  an error that means "media not supported", and left the world \<open>w'\<close>.
\<close>

fun all_unsupported ::
  "(error \<Rightarrow> bool) \<Rightarrow> ('w, 'm) scraper list \<Rightarrow> 'm \<Rightarrow> 'w \<Rightarrow> 'w option" where
  "all_unsupported notSupported [] m w = Some w"
| "all_unsupported notSupported (s # ss) m w =
     (case s m w of
        (Inl err, w') \<Rightarrow> if notSupported err then all_unsupported notSupported ss m w' else None
      | (Inr scraped, w') \<Rightarrow> None)"

section \<open>Renaming the media of a list\<close>

text \<open>
  What the code reads of a movie and of an episode (\<^verbatim>\<open>types.Movie\<close>,
  \<^verbatim>\<open>types.Episode\<close>); \<open>Quality\<close> and \<open>Codec\<close> stand for the strings
  \<^verbatim>\<open>m.Quality().String()\<close> and \<^verbatim>\<open>m.Codec().String()\<close>.
\<close>

record Metadata =
  Group :: string
  Codec :: string
  Quality :: string

record Movie = Metadata +
  MovieName :: string
  Year :: int

record Episode = Metadata +
  TVShow :: string
  EpisodeName :: string
  Episode :: int
  Season :: int

text \<open>
  The methods of a media value (\<^verbatim>\<open>types.LocalMedia\<close>) that are implemented outside
  this development. \<^verbatim>\<open>m.Merge(scraped)\<close> changes \<open>m\<close> in place: \<open>Merge\<close> returns the
  error or the value of \<open>m\<close> after the call. \<open>AsLocal\<close> is the media seen as a
  \<^verbatim>\<open>types.Local\<close>.
\<close>

record ('w, 'f, 'm) MediaOps =
  Merge :: "'m \<Rightarrow> 'm \<Rightarrow> error + 'm"
  TypeMovie :: "'m \<Rightarrow> Movie option"
  TypeEpisode :: "'m \<Rightarrow> Episode option"
  AsLocal :: "'m \<Rightarrow> ('w, 'f) Local"

definition renameMovie ::
  "('w, 'm) Application \<Rightarrow> ('w, 'f) OS \<Rightarrow> ('w, 'f) Local \<Rightarrow> Movie \<Rightarrow> ('w, 'f, 'm) renamer \<Rightarrow>
   ('w, 'm) state \<Rightarrow> error option \<times> ('w, 'm) state" where
  "renameMovie a os local m rename s =
     (case Movies_Template a of
        None \<Rightarrow> (Some (errorString ''missing template for movies''), s)
      | Some template \<Rightarrow>
          (case template [(''Movie'', S (cleanString (MovieName m))),
                          (''Year'', I (Year m)),
                          (''Quality'', S (Quality m)),
                          (''Codec'', S (Codec m)),
                          (''Group'', S (cleanString (Group m)))] of
             Inl err \<Rightarrow> (Some err, s)
           | Inr buf \<Rightarrow>
               (let filename = truncateSpaces (buf @ Ext (Name local));
                    dest = filepath_Join os (Movies_Directory a) filename
                in Rename os rename local dest (Force a) s)))"

definition renameEpisode ::
  "('w, 'm) Application \<Rightarrow> ('w, 'f) OS \<Rightarrow> ('w, 'f) Local \<Rightarrow> Episode \<Rightarrow> ('w, 'f, 'm) renamer \<Rightarrow>
   ('w, 'm) state \<Rightarrow> error option \<times> ('w, 'm) state" where
  "renameEpisode a os local e rename s =
     (case TVShows_Template a of
        None \<Rightarrow> (Some (errorString ''missing template for tvshows''), s)
      | Some template \<Rightarrow>
          (case template [(''TVShow'', S (cleanString (TVShow e))),
                          (''Name'', S (cleanString (EpisodeName e))),
                          (''Episode'', I (Episode e)),
                          (''Season'', I (Season e)),
                          (''Quality'', S (Quality e)),
                          (''Codec'', S (Codec e)),
                          (''Group'', S (cleanString (Group e)))] of
             Inl err \<Rightarrow> (Some err, s)
           | Inr buf \<Rightarrow>
               (let filename = truncateSpaces (buf @ Ext (Name local));
                    dest = filepath_Join os (TVShows_Directory a) filename
                in Rename os rename local dest (Force a) s)))"

text \<open>
  The part of the loop body of \<^verbatim>\<open>RenameMedia\<close> that renames the merged media \<open>m\<close>
  according to its kind:
  \<^verbatim>\<open>
  if movie, ok := m.TypeMovie(); ok { err = a.renameMovie(m, movie, doRename) }
  else if episode, ok := m.TypeEpisode(); ok { err = a.renameEpisode(m, episode, doRename) }
  else { err = errors.New("unknown media format cannot rename") }
  \<close>
\<close>

definition renameByType ::
  "('w, 'm) Application \<Rightarrow> ('w, 'f) OS \<Rightarrow> ('w, 'f, 'm) MediaOps \<Rightarrow> ('w, 'f, 'm) renamer \<Rightarrow> 'm \<Rightarrow>
   ('w, 'm) state \<Rightarrow> error option \<times> ('w, 'm) state" where
  "renameByType a os ops doRename m s =
     (case TypeMovie ops m of
        Some movie \<Rightarrow> renameMovie a os (AsLocal ops m) movie doRename s
      | None \<Rightarrow>
          (case TypeEpisode ops m of
             Some episode \<Rightarrow> renameEpisode a os (AsLocal ops m) episode doRename s
           | None \<Rightarrow> (Some (errorString ''unknown media format cannot rename''), s)))"

text \<open>
  The end of the loop body, once the strict check has let the item through: one entry is
  logged for it, with the fields of \<^verbatim>\<open>ctx\<close>.
\<close>

definition logOutcome ::
  "('w, 'm) Application \<Rightarrow> 'm \<Rightarrow> error option \<Rightarrow> ('w, 'm) state \<Rightarrow> ('w, 'm) state" where
  "logOutcome a m err s =
     (let ctx = [(''media'', Media m), (''action'', Str (action a))] in
      case err of
        Some mediaExistsError \<Rightarrow>
          log WarnLevel (ctx @ [(''reason'', Str ''media already exists'')]) ''Rename skipped'' s
      | Some e \<Rightarrow> log ErrorLevel (ctx @ [(''error'', Err e)]) ''Rename failed'' s
      | None \<Rightarrow> log InfoLevel ctx ''Media renamed'' s)"

text \<open>
  The loop of \<^verbatim>\<open>RenameMedia\<close> over the media that remain. A \<^verbatim>\<open>return err\<close> ends the
  function with the error; \<open>None\<close> is the \<^verbatim>\<open>return nil\<close> after the loop.
\<close>

fun RenameMedia_loop ::
  "('w, 'm) Application \<Rightarrow> ('w, 'f) OS \<Rightarrow> ('w, 'f, 'm) MediaOps \<Rightarrow> ('w, 'f, 'm) renamer \<Rightarrow>
   'm list \<Rightarrow> ('w, 'm) state \<Rightarrow> error option \<times> ('w, 'm) state" where
  "RenameMedia_loop a os ops doRename [] s = (None, s)"
| "RenameMedia_loop a os ops doRename (m # ms) s =
     (case scrapeMedia a m (world s) of
        (Inl err, w1) \<Rightarrow> (Some err, s\<lparr>world := w1\<rparr>)
      | (Inr scraped, w1) \<Rightarrow>
          (case Merge ops m scraped of
             Inl err \<Rightarrow> (Some err, s\<lparr>world := w1\<rparr>)
           | Inr m' \<Rightarrow>
               (case renameByType a os ops doRename m' (s\<lparr>world := w1\<rparr>) of
                  (err, s2) \<Rightarrow>
                    if Strict a \<and> err \<noteq> None then (err, s2)
                    else RenameMedia_loop a os ops doRename ms (logOutcome a m' err s2))))"

definition RenameMedia ::
  "('w, 'm) Application \<Rightarrow> ('w, 'f) OS \<Rightarrow> ('w, 'f, 'm) MediaOps \<Rightarrow> 'm list \<Rightarrow>
   ('w, 'm) state \<Rightarrow> error option \<times> ('w, 'm) state" where
  "RenameMedia a os ops list s =
     (case Renamers (action a) of
        None \<Rightarrow> (Some (errorString (action a @ '': unknown action'')), s)
      | Some doRename \<Rightarrow> RenameMedia_loop a os ops doRename list s)"

section \<open>A small file system, for concrete runs\<close>

text \<open>
  The theorems below hold for every operating system. To run the code on concrete inputs,
  here is one: a table from paths to nodes and a clock. It is no model of the whole of a
  file system, only of what the runs below meet: a file has a content and a modification
  time, \<^verbatim>\<open>MkdirAll\<close> fails on a path that is taken by a file, \<^verbatim>\<open>Stat\<close> and
  \<^verbatim>\<open>Remove\<close> fail on a path that is absent. An open file is its path.
\<close>

datatype node = File string nat | Directory | SymlinkTo string

record fsys =
  files :: "string \<Rightarrow> node option"
  now :: nat

definition demo_Stat :: "string \<Rightarrow> fsys \<Rightarrow> error option" where
  "demo_Stat p w =
     (case files w p of
        None \<Rightarrow> Some (foreignError (''stat '' @ p @ '': no such file or directory''))
      | Some n \<Rightarrow> None)"

definition demo_Remove :: "string \<Rightarrow> fsys \<Rightarrow> error option \<times> fsys" where
  "demo_Remove p w =
     (case files w p of
        None \<Rightarrow> (Some (foreignError (''remove '' @ p @ '': no such file or directory'')), w)
      | Some n \<Rightarrow> (None, w\<lparr>files := (files w)(p := None)\<rparr>))"

definition demo_MkdirAll :: "string \<Rightarrow> fsys \<Rightarrow> error option \<times> fsys" where
  "demo_MkdirAll p w =
     (case files w p of
        None \<Rightarrow> (None, w\<lparr>files := (files w)(p \<mapsto> Directory)\<rparr>)
      | Some Directory \<Rightarrow> (None, w)
      | Some n \<Rightarrow> (Some (foreignError (''mkdir '' @ p @ '': not a directory'')), w))"

definition demo_Create :: "string \<Rightarrow> fsys \<Rightarrow> (error + string) \<times> fsys" where
  "demo_Create p w =
     (case files w p of
        Some Directory \<Rightarrow> (Inl (foreignError (''open '' @ p @ '': is a directory'')), w)
      | _ \<Rightarrow> (Inr p, w\<lparr>files := (files w)(p \<mapsto> File [] (now w))\<rparr>))"

definition demo_Copy :: "string \<Rightarrow> string \<Rightarrow> fsys \<Rightarrow> error option \<times> fsys" where
  "demo_Copy dst src w =
     (case files w src of
        Some (File content t) \<Rightarrow> (None, w\<lparr>files := (files w)(dst \<mapsto> File content (now w))\<rparr>)
      | _ \<Rightarrow> (Some (foreignError (''read '' @ src @ '': bad file descriptor'')), w))"

definition demo_Rename :: "string \<Rightarrow> string \<Rightarrow> fsys \<Rightarrow> error option \<times> fsys" where
  "demo_Rename old new w =
     (case files w old of
        None \<Rightarrow> (Some (foreignError (''rename '' @ old @ '': no such file or directory'')), w)
      | Some n \<Rightarrow> (None, w\<lparr>files := (files w)(old := None, new \<mapsto> n)\<rparr>))"

definition demo_Symlink :: "string \<Rightarrow> string \<Rightarrow> fsys \<Rightarrow> error option \<times> fsys" where
  "demo_Symlink old new w =
     (case files w new of
        Some n \<Rightarrow> (Some (foreignError (''symlink '' @ new @ '': file exists'')), w)
      | None \<Rightarrow> (None, w\<lparr>files := (files w)(new \<mapsto> SymlinkTo old)\<rparr>))"

definition demo_Link :: "string \<Rightarrow> string \<Rightarrow> fsys \<Rightarrow> error option \<times> fsys" where
  "demo_Link old new w =
     (case files w old of
        None \<Rightarrow> (Some (foreignError (''link '' @ old @ '': no such file or directory'')), w)
      | Some n \<Rightarrow>
          (case files w new of
             Some n' \<Rightarrow> (Some (foreignError (''link '' @ new @ '': file exists'')), w)
           | None \<Rightarrow> (None, w\<lparr>files := (files w)(new \<mapsto> n)\<rparr>)))"

text \<open>The directory of a clean path: what comes before its last separator.\<close>

definition demo_Dir :: "string \<Rightarrow> string" where
  "demo_Dir p =
     (if CHR ''/'' \<notin> set p then ''.''
      else let d = rev (tl (dropWhile (\<lambda>c. c \<noteq> CHR ''/'') (rev p)))
           in if d = [] then ''/'' else d)"

definition demo_Join :: "string \<Rightarrow> string \<Rightarrow> string" where
  "demo_Join dir name = dir @ ''/'' @ name"

definition demo_os :: "(fsys, string) OS" where
  "demo_os =
     \<lparr>os_Stat = demo_Stat, os_Remove = demo_Remove, os_MkdirAll = demo_MkdirAll,
      os_Create = demo_Create, io_Copy = demo_Copy, file_Close = (\<lambda>f w. w),
      os_Rename = demo_Rename, os_Symlink = demo_Symlink, os_Link = demo_Link,
      filepath_Dir = demo_Dir, filepath_Join = demo_Join\<rparr>"

text \<open>
  Media for the runs: a file of the library, with or without a path, and what is known of
  it. A scraped value is a media too (the file is of no use in it).
\<close>

datatype kind = IsMovie Movie | IsEpisode Episode | IsSubtitle

record demo_media =
  mfile :: string
  mpath :: "string option"
  mkind :: kind

text \<open>
  Merging keeps the release data of the local value and takes the identity (title, year,
  and so on) of the scraped one; it fails when the two are of different kinds or one is a
  subtitle.
\<close>

definition demo_Merge :: "demo_media \<Rightarrow> demo_media \<Rightarrow> error + demo_media" where
  "demo_Merge m other =
     (case (mkind m, mkind other) of
        (IsMovie l, IsMovie r) \<Rightarrow>
          Inr (m\<lparr>mkind := IsMovie (l\<lparr>MovieName := MovieName r, Year := Year r\<rparr>)\<rparr>)
      | (IsEpisode l, IsEpisode r) \<Rightarrow>
          Inr (m\<lparr>mkind := IsEpisode (l\<lparr>TVShow := TVShow r, EpisodeName := EpisodeName r,
                                       Episode := Episode r, Season := Season r\<rparr>)\<rparr>)
      | _ \<Rightarrow> Inl (foreignError ''invalid merge''))"

definition demo_ops :: "(fsys, string, demo_media) MediaOps" where
  "demo_ops =
     \<lparr>Merge = demo_Merge,
      TypeMovie = (\<lambda>m. case mkind m of IsMovie v \<Rightarrow> Some v | _ \<Rightarrow> None),
      TypeEpisode = (\<lambda>m. case mkind m of IsEpisode e \<Rightarrow> Some e | _ \<Rightarrow> None),
      AsLocal = (\<lambda>m. \<lparr>Name = mfile m, Size = 0, IsDir = False,
                       Open = (\<lambda>w. (Inr (''/in/'' @ mfile m), w)), Pather = mpath m\<rparr>)\<rparr>"

text \<open>A template that writes the title and the year of a movie, as \<^verbatim>\<open>{{.Movie}} ({{.Year}})\<close>.\<close>

definition digit :: "nat \<Rightarrow> char" where
  "digit d = ''0123456789'' ! (d mod 10)"

definition year4 :: "nat \<Rightarrow> string" where
  "year4 n = [digit (n div 1000), digit (n div 100), digit (n div 10), digit n]"

definition demo_template :: template where
  "demo_template data =
     (case (map_of data ''Movie'', map_of data ''Year'') of
        (Some (S title), Some (I year)) \<Rightarrow> Inr (title @ '' ('' @ year4 (nat year) @ '')'')
      | _ \<Rightarrow> Inl (foreignError ''template: cannot evaluate field''))"

text \<open>
  Scrapers: one that knows no media, one that fails, one that knows one movie. Asking a
  scraper takes one tick of the clock, so that the clock counts the scrapers asked.
\<close>

definition unsupporting :: "(fsys, demo_media) scraper" where
  "unsupporting m w = (Inl (foreignError ''media not supported''), w\<lparr>now := Suc (now w)\<rparr>)"

definition failing :: "(fsys, demo_media) scraper" where
  "failing m w = (Inl (foreignError ''connection refused''), w\<lparr>now := Suc (now w)\<rparr>)"

definition found :: demo_media where
  "found =
     \<lparr>mfile = [], mpath = None,
      mkind = IsMovie \<lparr>Group = [], Codec = [], Quality = [], MovieName = ''Heat'', Year = 1995\<rparr>\<rparr>"

definition finding :: "(fsys, demo_media) scraper" where
  "finding m w = (Inr found, w\<lparr>now := Suc (now w)\<rparr>)"

definition demo_app :: "bool \<Rightarrow> (fsys, demo_media) scraper list \<Rightarrow> (fsys, demo_media) Application" where
  "demo_app strict scrapers =
     \<lparr>Scrapers = scrapers,
      IsErrMediaNotSupported = (\<lambda>e. e = foreignError ''media not supported''),
      action = ''copy'', Strict = strict, Force = False,
      Movies_Template = Some demo_template, Movies_Directory = ''/out'',
      TVShows_Template = None, TVShows_Directory = ''/tv''\<rparr>"


text \<open>
  A library of one file, \<^verbatim>\<open>/in/heat.mkv\<close>, whose place after renaming,
  \<^verbatim>\<open>/out/Heat (1995).mkv\<close>, is taken already; the movie of that file, which has no
  path, and an episode.
\<close>

definition library :: fsys where
  "library =
     \<lparr>files = [''/in/heat.mkv'' \<mapsto> File ''new'' 1, ''/out/Heat (1995).mkv'' \<mapsto> File ''old'' 2],
      now = 7\<rparr>"

definition heat :: demo_media where
  "heat =
     \<lparr>mfile = ''heat.mkv'', mpath = None,
      mkind = IsMovie \<lparr>Group = ''GRP'', Codec = ''x264'', Quality = ''1080p'',
                       MovieName = ''heat'', Year = 0\<rparr>\<rparr>"

definition pilot :: demo_media where
  "pilot =
     \<lparr>mfile = ''pilot.mkv'', mpath = None,
      mkind = IsEpisode \<lparr>Group = [], Codec = [], Quality = [],
                         TVShow = ''show'', EpisodeName = [], Episode = 1, Season = 1\<rparr>\<rparr>"

definition start :: "(fsys, demo_media) state" where
  "start = \<lparr>world = library, logs = []\<rparr>"

text \<open>The movie after merging with what the scraper found.\<close>

definition merged :: demo_media where
  "merged =
     \<lparr>mfile = ''heat.mkv'', mpath = None,
      mkind = IsMovie \<lparr>Group = ''GRP'', Codec = ''x264'', Quality = ''1080p'',
                       MovieName = ''Heat'', Year = 1995\<rparr>\<rparr>"

section \<open>Properties of the file-name functions\<close>

lemma truncateSpaces_noRun_id: "noRun s \<Longrightarrow> truncateSpaces s = s"
  by (induction s rule: noRun.induct) auto

lemma truncateSpaces_hd_space:
  "truncateSpaces s = x # xs \<Longrightarrow> isSpace x \<Longrightarrow> s \<noteq> [] \<and> isSpace (hd s)"
  by (induction s rule: truncateSpaces.induct) (auto split: if_splits)

lemma dropWhile_hd_not: "dropWhile P cs = x # xs \<Longrightarrow> \<not> P x"
  by (metis hd_dropWhile list.sel(1) list.distinct(1))

lemma noRun_truncateSpaces: "noRun (truncateSpaces s)"
proof (induction s rule: truncateSpaces.induct)
  case 1
  show ?case by simp
next
  case (2 c)
  show ?case by simp
next
  case (3 c d cs)
  show ?case
  proof (cases "isSpace c \<and> isSpace d")
    case True
    let ?r = "truncateSpaces (dropWhile isSpace cs)"
    have ih: "noRun ?r" using 3(1) True by simp
    have "noRun (CHR '' '' # ?r)"
    proof (cases ?r)
      case Nil
      then show ?thesis by simp
    next
      case (Cons x xs)
      have "\<not> isSpace x"
      proof
        assume "isSpace x"
        with Cons have "dropWhile isSpace cs \<noteq> [] \<and> isSpace (hd (dropWhile isSpace cs))"
          using truncateSpaces_hd_space by blast
        then show False
          by (metis dropWhile_hd_not list.exhaust_sel)
      qed
      with ih Cons show ?thesis by simp
    qed
    with True show ?thesis by auto
  next
    case False
    let ?r = "truncateSpaces (d # cs)"
    have ih: "noRun ?r" using 3(2) False by simp
    have "noRun (c # ?r)"
    proof (cases ?r)
      case Nil
      then show ?thesis by simp
    next
      case (Cons x xs)
      have "\<not> (isSpace c \<and> isSpace x)"
      proof
        assume a: "isSpace c \<and> isSpace x"
        with Cons have "isSpace (hd (d # cs))"
          using truncateSpaces_hd_space by blast
        with a False show False by simp
      qed
      with ih Cons show ?thesis by simp
    qed
    with False show ?thesis by auto
  qed
qed

text \<open>
  C6. \<^verbatim>\<open>truncateSpaces\<close> is idempotent: applying it to its own output changes nothing.
\<close>

theorem truncateSpaces_idempotent: "truncateSpaces (truncateSpaces s) = truncateSpaces s"
  by (rule truncateSpaces_noRun_id) (rule noRun_truncateSpaces)

text \<open>
  C7. The output of \<^verbatim>\<open>cleanString\<close> contains none of the characters of the removal
  class, whatever the input.
\<close>

theorem cleanString_no_illegal: "set (cleanString s) \<inter> pathRegex = {}"
  by (auto simp: cleanString_def)

text \<open>
  Some runs: a run of whitespace of any kind becomes one space, a single whitespace
  character stays what it is, and the characters of the class are dropped.
\<close>

lemma truncateSpaces_examples:
  "truncateSpaces ''Heat   (1995)  .mkv'' = ''Heat (1995) .mkv''"
  "truncateSpaces [CHR ''a'', CHR 0x09, CHR 0x0A, CHR ''b''] = ''a b''"
  "truncateSpaces [CHR ''a'', CHR 0x09, CHR ''b''] = [CHR ''a'', CHR 0x09, CHR ''b'']"
  by (simp_all add: isSpace_def)

lemma cleanString_example: "cleanString ''AC/DC: Live?'' = ''ACDC Live''"
  by (simp add: cleanString_def pathRegex_def)

section \<open>Properties of subtitle construction\<close>

lemma Ext_loop_dot:
  "n \<le> length path \<Longrightarrow> Ext_loop path n \<noteq> [] \<Longrightarrow> CHR ''.'' \<in> set path"
proof (induction n)
  case 0
  then show ?case by simp
next
  case (Suc n)
  show ?case
  proof (cases "path ! n = CHR ''.''")
    case True
    with Suc.prems show ?thesis by (metis Suc_le_lessD nth_mem)
  next
    case False
    with Suc show ?thesis by (auto split: if_splits)
  qed
qed

lemma Ext_dot: "Ext path \<noteq> [] \<Longrightarrow> CHR ''.'' \<in> set path"
  unfolding Ext_def by (rule Ext_loop_dot [of "length path"]) auto

lemma length_Split_from:
  "length (Split_from s sep cur) = Suc (length (filter (\<lambda>c. c = sep) s))"
  by (induction s arbitrary: cur) auto

lemma length_Split: "length (Split s sep) = Suc (length (filter (\<lambda>c. c = sep) s))"
  by (simp add: Split_def length_Split_from)

lemma Split_two: "sep \<in> set s \<Longrightarrow> 2 \<le> length (Split s sep)"
proof -
  assume "sep \<in> set s"
  then have "filter (\<lambda>c. c = sep) s \<noteq> []" by (simp add: filter_empty_conv)
  then have "0 < length (filter (\<lambda>c. c = sep) s)" by (simp del: filter_empty_conv)
  then show ?thesis unfolding length_Split by linarith
qed

lemma srt_two_parts: "Ext name = ''.srt'' \<Longrightarrow> 2 \<le> length (Split name (CHR ''.''))"
  by (rule Split_two, rule Ext_dot) simp

lemma second_to_last: "2 \<le> length xs \<Longrightarrow> xs ! (length xs - 2) = rev xs ! 1"
  by (simp add: rev_nth numeral_2_eq_2)

text \<open>
  C5 (as amended). For every entry whose name has the extension \<^verbatim>\<open>.srt\<close>, construction
  succeeds: the second-to-last dot-delimited segment of the name is handed to
  \<^verbatim>\<open>language.Make\<close>, and the subtitle carries the tag that comes back. \<^verbatim>\<open>Make\<close>
  reports no error, so a token that is no locale does not make construction fail.
\<close>

theorem NewLocalSubtitle_srt:
  assumes "Ext (Name file) = ''.srt''"
  shows "NewLocalSubtitle Make file =
           Inr \<lparr>FileInfo = file, lang = Make (rev (Split (Name file) (CHR ''.'')) ! 1)\<rparr>"
proof -
  have two: "2 \<le> length (Split (Name file) (CHR ''.''))"
    using assms by (rule srt_two_parts)
  then have "\<not> length (Split (Name file) (CHR ''.'')) < 2" by simp
  with assms second_to_last [OF two] show ?thesis
    by (simp add: NewLocalSubtitle_def Let_def)
qed

theorem NewLocalSubtitle_srt_witness:
  "Ext (Name \<lparr>Name = ''Show.S01E02.en.srt'', Size = 1024, IsDir = False\<rparr>) = ''.srt'' \<and>
   NewLocalSubtitle demo_Make \<lparr>Name = ''Show.S01E02.en.srt'', Size = 1024, IsDir = False\<rparr> =
     Inr \<lparr>FileInfo = \<lparr>Name = ''Show.S01E02.en.srt'', Size = 1024, IsDir = False\<rparr>,
          lang = Lang ''en''\<rparr>"
proof -
  have h: "Ext (Name \<lparr>Name = ''Show.S01E02.en.srt'', Size = 1024, IsDir = False\<rparr>) = ''.srt''"
    by (simp add: Ext_def IsPathSeparator_def)
  show ?thesis
    using h NewLocalSubtitle_srt [OF h, of demo_Make] by (simp add: demo_Make_def Split_def)
qed

text \<open>
  The claim as first stated fails: in \<^verbatim>\<open>Movie.2020.x264-GRP.srt\<close> the second-to-last
  segment is no locale, and in \<^verbatim>\<open>.srt\<close> it is empty; both names give a subtitle, of
  undetermined language, and no error.
\<close>

theorem NewLocalSubtitle_unparseable_counterexample:
  "NewLocalSubtitle demo_Make \<lparr>Name = ''Movie.2020.x264-GRP.srt'', Size = 1024, IsDir = False\<rparr> =
     Inr \<lparr>FileInfo = \<lparr>Name = ''Movie.2020.x264-GRP.srt'', Size = 1024, IsDir = False\<rparr>,
          lang = Und\<rparr> \<and>
   NewLocalSubtitle demo_Make \<lparr>Name = ''.srt'', Size = 0, IsDir = False\<rparr> =
     Inr \<lparr>FileInfo = \<lparr>Name = ''.srt'', Size = 0, IsDir = False\<rparr>, lang = Und\<rparr>"
  by (simp add: NewLocalSubtitle_def Ext_def IsPathSeparator_def demo_Make_def Split_def)

text \<open>
  C9. The branch \<^verbatim>\<open>error parsing subtitle file\<close> is never taken: a name of extension
  \<^verbatim>\<open>.srt\<close> splits on dots into two parts at least, so that construction fails on the
  extension check only.
\<close>

theorem NewLocalSubtitle_parse_branch_unreachable:
  "(Ext (Name file) = ''.srt'' \<longrightarrow> 2 \<le> length (Split (Name file) (CHR ''.''))) \<and>
   NewLocalSubtitle Make file \<noteq> Inl (errorString ''error parsing subtitle file'') \<and>
   (NewLocalSubtitle Make file = Inl e \<longrightarrow>
      Ext (Name file) \<noteq> ''.srt'' \<and> e = errorString ''parsing non subtitle file as subtitle'')"
proof (cases "Ext (Name file) = ''.srt''")
  case True
  then have "\<not> length (Split (Name file) (CHR ''.'')) < 2"
    using srt_two_parts [of "Name file"] by simp
  with True show ?thesis by (simp add: NewLocalSubtitle_def Let_def)
next
  case False
  then show ?thesis by (simp add: NewLocalSubtitle_def)
qed

theorem NewLocalSubtitle_parse_branch_unreachable_witness:
  "Ext (Name \<lparr>Name = ''a.srt'', Size = 7, IsDir = False\<rparr>) = ''.srt'' \<and>
   2 \<le> length (Split (Name \<lparr>Name = ''a.srt'', Size = 7, IsDir = False\<rparr>) (CHR ''.'')) \<and>
   NewLocalSubtitle demo_Make \<lparr>Name = ''a.mkv'', Size = 7, IsDir = False\<rparr> =
     Inl (errorString ''parsing non subtitle file as subtitle'') \<and>
   Ext (Name \<lparr>Name = ''a.mkv'', Size = 7, IsDir = False\<rparr>) \<noteq> ''.srt''"
proof -
  have h1: "Ext (Name \<lparr>Name = ''a.srt'', Size = 7, IsDir = False\<rparr>) = ''.srt''"
    by (simp add: Ext_def IsPathSeparator_def)
  have h2: "NewLocalSubtitle demo_Make \<lparr>Name = ''a.mkv'', Size = 7, IsDir = False\<rparr> =
              Inl (errorString ''parsing non subtitle file as subtitle'')"
    by (simp add: NewLocalSubtitle_def Ext_def IsPathSeparator_def Split_def)
  from h1
    NewLocalSubtitle_parse_branch_unreachable
      [of "\<lparr>Name = ''a.srt'', Size = 7, IsDir = False\<rparr>" demo_Make]
  have a: "2 \<le> length (Split (Name \<lparr>Name = ''a.srt'', Size = 7, IsDir = False\<rparr>) (CHR ''.''))"
    by blast
  from h2
    NewLocalSubtitle_parse_branch_unreachable
      [of "\<lparr>Name = ''a.mkv'', Size = 7, IsDir = False\<rparr>" demo_Make
          "errorString ''parsing non subtitle file as subtitle''"]
  have b: "Ext (Name \<lparr>Name = ''a.mkv'', Size = 7, IsDir = False\<rparr>) \<noteq> ''.srt''"
    by blast
  from h1 a h2 b show ?thesis by blast
qed

text \<open>
  C10. A local subtitle is never marked as made for the hearing impaired: \<^verbatim>\<open>IsHI\<close>
  is false of every local subtitle, so of every one that construction returns, whatever
  the file name.
\<close>

theorem LocalSubtitle_IsHI_false:
  "\<not> IsHI l \<and> (NewLocalSubtitle Make file = Inr s \<longrightarrow> \<not> IsHI s)"
  by (simp add: IsHI_def)

theorem LocalSubtitle_IsHI_false_witness:
  "NewLocalSubtitle demo_Make \<lparr>Name = ''Show.S01E02.hi.en.srt'', Size = 1024, IsDir = False\<rparr> =
     Inr \<lparr>FileInfo = \<lparr>Name = ''Show.S01E02.hi.en.srt'', Size = 1024, IsDir = False\<rparr>,
          lang = Lang ''en''\<rparr> \<and>
   \<not> IsHI \<lparr>FileInfo = \<lparr>Name = ''Show.S01E02.hi.en.srt'', Size = 1024, IsDir = False\<rparr>,
            lang = Lang ''en''\<rparr>"
proof -
  have h: "NewLocalSubtitle demo_Make
             \<lparr>Name = ''Show.S01E02.hi.en.srt'', Size = 1024, IsDir = False\<rparr> =
           Inr \<lparr>FileInfo = \<lparr>Name = ''Show.S01E02.hi.en.srt'', Size = 1024, IsDir = False\<rparr>,
                lang = Lang ''en''\<rparr>"
    by (simp add: NewLocalSubtitle_def Ext_def IsPathSeparator_def demo_Make_def Split_def)
  from h LocalSubtitle_IsHI_false
      [of _ demo_Make "\<lparr>Name = ''Show.S01E02.hi.en.srt'', Size = 1024, IsDir = False\<rparr>"
          "\<lparr>FileInfo = \<lparr>Name = ''Show.S01E02.hi.en.srt'', Size = 1024, IsDir = False\<rparr>,
            lang = Lang ''en''\<rparr>"]
  show ?thesis by blast
qed

section \<open>Properties of scraping\<close>

lemma scrapeMedia_loop_skip:
  "all_unsupported ns pre m w = Some w1 \<Longrightarrow>
   scrapeMedia_loop ns (pre @ rest) m w = scrapeMedia_loop ns rest m w1"
proof (induction pre arbitrary: w)
  case Nil
  then show ?case by simp
next
  case (Cons s pre)
  obtain r w' where sw: "s m w = (r, w')" by (cases "s m w")
  show ?case
  proof (cases r)
    case (Inl err)
    with Cons.prems sw have ns: "ns err" and rest: "all_unsupported ns pre m w' = Some w1"
      by (auto split: if_splits)
    from Cons.IH [OF rest] sw Inl ns show ?thesis by simp
  next
    case (Inr scraped)
    with Cons.prems sw show ?thesis by simp
  qed
qed

text \<open>
  Every run of the loop is of one of three forms: all the scrapers are skipped, or the
  scrapers before one are skipped and that one returns a result, or an error that is not
  "media not supported".
\<close>

lemma scrapeMedia_loop_cases:
  "(\<exists>w1. all_unsupported ns ss m w = Some w1) \<or>
   (\<exists>pre s post w1 r w2. ss = pre @ s # post \<and> all_unsupported ns pre m w = Some w1 \<and>
      (s m w1 = (Inr r, w2) \<or> (\<exists>e. s m w1 = (Inl e, w2) \<and> \<not> ns e)))"
proof (induction ss arbitrary: w)
  case Nil
  show ?case by simp
next
  case (Cons s ss)
  obtain r w' where sw: "s m w = (r, w')" by (cases "s m w")
  show ?case
  proof (cases r)
    case (Inr scraped)
    with sw have "s # ss = [] @ s # ss \<and> all_unsupported ns [] m w = Some w \<and>
      s m w = (Inr scraped, w')" by simp
    then show ?thesis by blast
  next
    case (Inl err)
    show ?thesis
    proof (cases "ns err")
      case False
      with sw Inl have "s # ss = [] @ s # ss \<and> all_unsupported ns [] m w = Some w \<and>
        s m w = (Inl err, w') \<and> \<not> ns err" by simp
      then show ?thesis by blast
    next
      case True
      have step: "all_unsupported ns (s # pre) m w = all_unsupported ns pre m w'" for pre
        using sw Inl True by simp
      from Cons.IH [of w'] show ?thesis
      proof
        assume "\<exists>w1. all_unsupported ns ss m w' = Some w1"
        then show ?thesis using step by simp
      next
        assume "\<exists>pre t post w1 r w2. ss = pre @ t # post \<and>
          all_unsupported ns pre m w' = Some w1 \<and>
          (t m w1 = (Inr r, w2) \<or> (\<exists>e. t m w1 = (Inl e, w2) \<and> \<not> ns e))"
        then obtain pre t post w1 r w2 where
          a: "ss = pre @ t # post" and b: "all_unsupported ns pre m w' = Some w1" and
          c: "t m w1 = (Inr r, w2) \<or> (\<exists>e. t m w1 = (Inl e, w2) \<and> \<not> ns e)"
          by blast
        from a have "s # ss = (s # pre) @ t # post" by simp
        moreover from b step have "all_unsupported ns (s # pre) m w = Some w1" by simp
        ultimately show ?thesis using c by blast
      qed
    qed
  qed
qed

text \<open>
  C3. \<^verbatim>\<open>scrapeMedia\<close> asks the scrapers in their order. While they answer "media not
  supported" it goes on to the next; the first other error is returned to the caller, and
  the first result is returned, in both cases with the world as that scraper left it and
  whatever the scrapers after it are: none of them is asked. When every scraper has
  answered "media not supported" (or there is none), the error is
  \<^verbatim>\<open>no scrapers to use for media\<close>.
\<close>

theorem scrapeMedia_in_order:
  assumes "all_unsupported (IsErrMediaNotSupported a) pre m w = Some w1"
  shows "(Scrapers a = pre @ s # post \<and> s m w1 = (Inr r, w2) \<longrightarrow>
            scrapeMedia a m w = (Inr r, w2)) \<and>
         (Scrapers a = pre @ s # post \<and> s m w1 = (Inl e, w2) \<and> \<not> IsErrMediaNotSupported a e \<longrightarrow>
            scrapeMedia a m w = (Inl e, w2)) \<and>
         (Scrapers a = pre \<longrightarrow>
            scrapeMedia a m w = (Inl (errorString ''no scrapers to use for media''), w1))"
proof -
  have skip: "scrapeMedia_loop (IsErrMediaNotSupported a) (pre @ rest) m w =
              scrapeMedia_loop (IsErrMediaNotSupported a) rest m w1" for rest
    using assms by (rule scrapeMedia_loop_skip)
  have "scrapeMedia_loop (IsErrMediaNotSupported a) pre m w =
        scrapeMedia_loop (IsErrMediaNotSupported a) [] m w1"
    using skip [of "[]"] by simp
  with skip [of "s # post"] show ?thesis
    by (simp add: scrapeMedia_def)
qed

theorem scrapeMedia_in_order_witness:
  "scrapeMedia (demo_app False [unsupporting, finding, failing]) heat library =
     (Inr found, library\<lparr>now := 9\<rparr>) \<and>
   scrapeMedia (demo_app False [unsupporting, failing, finding]) heat library =
     (Inl (foreignError ''connection refused''), library\<lparr>now := 9\<rparr>) \<and>
   scrapeMedia (demo_app False [unsupporting, unsupporting]) heat library =
     (Inl (errorString ''no scrapers to use for media''), library\<lparr>now := 9\<rparr>)"
proof -
  let ?ns = "\<lambda>e. e = foreignError ''media not supported''"
  have ns: "IsErrMediaNotSupported (demo_app strict ss) = ?ns" for strict ss
    by (simp add: demo_app_def)
  have one: "all_unsupported ?ns [unsupporting] heat library = Some (library\<lparr>now := 8\<rparr>)"
    by (simp add: unsupporting_def library_def)
  have two: "all_unsupported ?ns [unsupporting, unsupporting] heat library =
               Some (library\<lparr>now := 9\<rparr>)"
    by (simp add: unsupporting_def library_def)
  have f: "finding heat (library\<lparr>now := 8\<rparr>) = (Inr found, library\<lparr>now := 9\<rparr>)"
    by (simp add: finding_def library_def)
  have g: "failing heat (library\<lparr>now := 8\<rparr>) =
             (Inl (foreignError ''connection refused''), library\<lparr>now := 9\<rparr>)"
    by (simp add: failing_def library_def)
  have a: "scrapeMedia (demo_app False [unsupporting, finding, failing]) heat library =
             (Inr found, library\<lparr>now := 9\<rparr>)"
    using scrapeMedia_in_order
      [of "demo_app False [unsupporting, finding, failing]" "[unsupporting]" heat library
          "library\<lparr>now := 8\<rparr>" finding "[failing]" found "library\<lparr>now := 9\<rparr>"]
      one f
    by (simp add: ns) (simp add: demo_app_def)
  have b: "scrapeMedia (demo_app False [unsupporting, failing, finding]) heat library =
             (Inl (foreignError ''connection refused''), library\<lparr>now := 9\<rparr>)"
    using scrapeMedia_in_order
      [of "demo_app False [unsupporting, failing, finding]" "[unsupporting]" heat library
          "library\<lparr>now := 8\<rparr>" failing "[finding]" _ "library\<lparr>now := 9\<rparr>"
          "foreignError ''connection refused''"]
      one g
    by (simp add: ns) (simp add: demo_app_def)
  have c: "scrapeMedia (demo_app False [unsupporting, unsupporting]) heat library =
             (Inl (errorString ''no scrapers to use for media''), library\<lparr>now := 9\<rparr>)"
    using scrapeMedia_in_order
      [of "demo_app False [unsupporting, unsupporting]" "[unsupporting, unsupporting]" heat
          library "library\<lparr>now := 9\<rparr>"]
      two
    by (simp add: ns) (simp add: demo_app_def)
  from a b c show ?thesis by blast
qed

section \<open>Properties of the renamers\<close>

text \<open>
  C4. When a file exists at the destination (\<^verbatim>\<open>os.Stat\<close> returns no error) and
  \<open>force\<close> is false, \<^verbatim>\<open>Rename\<close> returns \<^verbatim>\<open>mediaExistsError\<close> and leaves the state
  as it was, whatever the media, the destination and the renamer: the world of the
  operating system is the one before the call, so that the file at the destination keeps
  its content and its modification time and nothing is removed, created or linked.
\<close>

theorem Rename_exists_without_force:
  assumes "os_Stat os dest (world s) = None"
  shows "Rename os r local dest False s = (Some mediaExistsError, s)"
  using assms by (simp add: Rename_def)

theorem Rename_exists_without_force_witness:
  "os_Stat demo_os ''/out/Heat (1995).mkv'' (world start) = None \<and>
   Rename demo_os moveRenamer (AsLocal demo_ops heat) ''/out/Heat (1995).mkv'' False start =
     (Some mediaExistsError, start) \<and>
   files (world start) ''/out/Heat (1995).mkv'' = Some (File ''old'' 2)"
proof -
  have h: "os_Stat demo_os ''/out/Heat (1995).mkv'' (world start) = None"
    by (simp add: demo_os_def demo_Stat_def start_def library_def)
  have k: "files (world start) ''/out/Heat (1995).mkv'' = Some (File ''old'' 2)"
    by (simp add: start_def library_def)
  from h k Rename_exists_without_force [OF h, of moveRenamer "AsLocal demo_ops heat"]
  show ?thesis by blast
qed

text \<open>
  C8 (as amended). For a media without a path, the move, symlink and hardlink renamers
  fail, and none calls its link operation (\<^verbatim>\<open>os.Rename\<close>, \<^verbatim>\<open>os.Symlink\<close>,
  \<^verbatim>\<open>os.Link\<close>): whatever that operation is, the outcome is the same. Each first calls
  \<^verbatim>\<open>os.MkdirAll\<close> on the directory of the destination; when that fails its error is
  returned, otherwise the error is the one that says that the media has no path. The
  world is left as \<^verbatim>\<open>os.MkdirAll\<close> left it. The copy renamer does not look at the path.
\<close>

theorem renamers_without_path:
  assumes "Pather local = None"
      and "os_MkdirAll os (filepath_Dir os dest) (world s) = (res, w1)"
  shows "moveRenamer os local dest s =
           (Some (case res of Some err \<Rightarrow> err
                  | None \<Rightarrow> errorString ''can't move media without a path''), s\<lparr>world := w1\<rparr>) \<and>
         symlinkRenamer os local dest s =
           (Some (case res of Some err \<Rightarrow> err
                  | None \<Rightarrow> errorString ''can't symlink media without a path''), s\<lparr>world := w1\<rparr>) \<and>
         hardlinkRenamer os local dest s =
           (Some (case res of Some err \<Rightarrow> err
                  | None \<Rightarrow> errorString ''can't hardlink media without a path''), s\<lparr>world := w1\<rparr>) \<and>
         moveRenamer (os\<lparr>os_Rename := f\<rparr>) local dest s = moveRenamer os local dest s \<and>
         symlinkRenamer (os\<lparr>os_Symlink := f\<rparr>) local dest s = symlinkRenamer os local dest s \<and>
         hardlinkRenamer (os\<lparr>os_Link := f\<rparr>) local dest s = hardlinkRenamer os local dest s \<and>
         copyRenamer os (local\<lparr>Pather := p\<rparr>) dest s = copyRenamer os local dest s"
  using assms
  by (cases res)
    (simp_all add: moveRenamer_def symlinkRenamer_def hardlinkRenamer_def copyRenamer_def)

theorem renamers_without_path_witness:
  "Pather (AsLocal demo_ops heat) = None \<and>
   os_MkdirAll demo_os (filepath_Dir demo_os ''/new/x.mkv'') (world start) =
     (None, library\<lparr>files := (files library)(''/new'' \<mapsto> Directory)\<rparr>) \<and>
   moveRenamer demo_os (AsLocal demo_ops heat) ''/new/x.mkv'' start =
     (Some (errorString ''can't move media without a path''),
      start\<lparr>world := library\<lparr>files := (files library)(''/new'' \<mapsto> Directory)\<rparr>\<rparr>) \<and>
   symlinkRenamer demo_os (AsLocal demo_ops heat) ''/new/x.mkv'' start =
     (Some (errorString ''can't symlink media without a path''),
      start\<lparr>world := library\<lparr>files := (files library)(''/new'' \<mapsto> Directory)\<rparr>\<rparr>) \<and>
   hardlinkRenamer demo_os (AsLocal demo_ops heat) ''/new/x.mkv'' start =
     (Some (errorString ''can't hardlink media without a path''),
      start\<lparr>world := library\<lparr>files := (files library)(''/new'' \<mapsto> Directory)\<rparr>\<rparr>)"
proof -
  have h1: "Pather (AsLocal demo_ops heat) = None"
    by (simp add: demo_ops_def heat_def)
  have h2: "os_MkdirAll demo_os (filepath_Dir demo_os ''/new/x.mkv'') (world start) =
              (None, library\<lparr>files := (files library)(''/new'' \<mapsto> Directory)\<rparr>)"
    by (simp add: demo_os_def demo_Dir_def demo_MkdirAll_def start_def library_def)
  from h1 h2 renamers_without_path [OF h1 h2]
  show ?thesis by simp
qed

text \<open>
  The claim as first stated fails where the directory of the destination cannot be made:
  \<^verbatim>\<open>/in/heat.mkv\<close> is a file, and the three renamers return the error of
  \<^verbatim>\<open>os.MkdirAll\<close>, not the one about the path.
\<close>

theorem renamers_without_path_counterexample:
  "Pather (AsLocal demo_ops heat) = None \<and>
   moveRenamer demo_os (AsLocal demo_ops heat) ''/in/heat.mkv/x.mkv'' start =
     (Some (foreignError ''mkdir /in/heat.mkv: not a directory''), start) \<and>
   symlinkRenamer demo_os (AsLocal demo_ops heat) ''/in/heat.mkv/x.mkv'' start =
     (Some (foreignError ''mkdir /in/heat.mkv: not a directory''), start) \<and>
   hardlinkRenamer demo_os (AsLocal demo_ops heat) ''/in/heat.mkv/x.mkv'' start =
     (Some (foreignError ''mkdir /in/heat.mkv: not a directory''), start)"
  by (simp add: moveRenamer_def symlinkRenamer_def hardlinkRenamer_def demo_os_def demo_ops_def
      demo_Dir_def demo_MkdirAll_def start_def library_def heat_def)

text \<open>
  The copy renamer does work for a media without a path: the content of the file arrives
  at the destination.
\<close>

lemma copyRenamer_without_path_example:
  "Pather (AsLocal demo_ops heat) = None \<and>
   fst (copyRenamer demo_os (AsLocal demo_ops heat) ''/new/x.mkv'' start) = None \<and>
   files (world (snd (copyRenamer demo_os (AsLocal demo_ops heat) ''/new/x.mkv'' start)))
     ''/new/x.mkv'' = Some (File ''new'' 7)"
  by (simp add: copyRenamer_def demo_os_def demo_ops_def demo_Dir_def demo_MkdirAll_def
      demo_Create_def demo_Copy_def log_def start_def library_def heat_def)

section \<open>Properties of the batch\<close>

text \<open>
  C1 (as amended). When the renaming of an item ends in \<^verbatim>\<open>mediaExistsError\<close>: in lenient
  mode the item is skipped, with one entry \<^verbatim>\<open>Rename skipped\<close> at the warning level (a
  lower severity than the error level of a failure), and the loop goes on with the next
  item; in strict mode \<^verbatim>\<open>RenameMedia\<close> returns the error at once and nothing is
  logged.
\<close>

theorem RenameMedia_media_exists:
  assumes "scrapeMedia a m (world s) = (Inr scraped, w1)"
      and "Merge ops m scraped = Inr m'"
      and "renameByType a os ops doRename m' (s\<lparr>world := w1\<rparr>) = (Some mediaExistsError, s2)"
  shows "(\<not> Strict a \<longrightarrow>
            RenameMedia_loop a os ops doRename (m # ms) s =
            RenameMedia_loop a os ops doRename ms
              (log WarnLevel
                 [(''media'', Media m'), (''action'', Str (action a)),
                  (''reason'', Str ''media already exists'')]
                 ''Rename skipped'' s2)) \<and>
         (Strict a \<longrightarrow>
            RenameMedia_loop a os ops doRename (m # ms) s = (Some mediaExistsError, s2)) \<and>
         severity WarnLevel < severity ErrorLevel"
  using assms by (simp add: logOutcome_def)

text \<open>
  C2 (as amended). In lenient mode, an item whose renaming fails with an error other than
  \<^verbatim>\<open>mediaExistsError\<close> (unknown kind of media, missing template, an error of the
  template or of the renamer) is logged with one entry \<^verbatim>\<open>Rename failed\<close> at the error
  level, and the loop goes on with the next item. An item whose scraping or merging fails
  is not logged: \<^verbatim>\<open>RenameMedia\<close> returns that error at once, in either mode, and the
  items after it are not processed.
\<close>

theorem RenameMedia_failures:
  "(scrapeMedia a m (world s) = (Inl err, w1) \<longrightarrow>
      RenameMedia_loop a os ops doRename (m # ms) s = (Some err, s\<lparr>world := w1\<rparr>)) \<and>
   (scrapeMedia a m (world s) = (Inr scraped, w1) \<and> Merge ops m scraped = Inl err \<longrightarrow>
      RenameMedia_loop a os ops doRename (m # ms) s = (Some err, s\<lparr>world := w1\<rparr>)) \<and>
   (\<not> Strict a \<and> scrapeMedia a m (world s) = (Inr scraped, w1) \<and>
    Merge ops m scraped = Inr m' \<and>
    renameByType a os ops doRename m' (s\<lparr>world := w1\<rparr>) = (Some err, s2) \<and>
    err \<noteq> mediaExistsError \<longrightarrow>
      RenameMedia_loop a os ops doRename (m # ms) s =
      RenameMedia_loop a os ops doRename ms
        (log ErrorLevel
           [(''media'', Media m'), (''action'', Str (action a)), (''error'', Err err)]
           ''Rename failed'' s2))"
  by (cases err) (simp_all add: logOutcome_def)

lemma demo_template_heat:
  "demo_template [(''Movie'', S (cleanString ''Heat'')), (''Year'', I 1995),
                  (''Quality'', S ''1080p''), (''Codec'', S ''x264''),
                  (''Group'', S (cleanString ''GRP''))] = Inr ''Heat (1995)''"
  by (simp add: demo_template_def cleanString_def pathRegex_def year4_def digit_def)

lemma heat_file_name: "truncateSpaces (''Heat (1995)'' @ Ext ''heat.mkv'') = ''Heat (1995).mkv''"
  by (simp add: Ext_def IsPathSeparator_def isSpace_def)

lemma heat_scraped:
  "scrapeMedia (demo_app strict [finding]) heat (world start) = (Inr found, library\<lparr>now := 8\<rparr>)"
  by (simp add: scrapeMedia_def demo_app_def finding_def start_def library_def)

lemma heat_merged: "Merge demo_ops heat found = Inr merged"
  by (simp add: demo_ops_def demo_Merge_def heat_def found_def merged_def)

lemma heat_exists:
  "renameByType (demo_app strict [finding]) demo_os demo_ops copyRenamer merged
     (start\<lparr>world := library\<lparr>now := 8\<rparr>\<rparr>) =
   (Some mediaExistsError, start\<lparr>world := library\<lparr>now := 8\<rparr>\<rparr>)"
proof -
  have movie: "TypeMovie demo_ops merged =
      Some \<lparr>Group = ''GRP'', Codec = ''x264'', Quality = ''1080p'',
            MovieName = ''Heat'', Year = 1995\<rparr>"
    by (simp add: demo_ops_def merged_def)
  have name: "Name (AsLocal demo_ops merged) = ''heat.mkv''"
    by (simp add: demo_ops_def merged_def)
  have tpl: "Movies_Template (demo_app strict [finding]) = Some demo_template"
    and dir: "Movies_Directory (demo_app strict [finding]) = ''/out''"
    and force: "\<not> Force (demo_app strict [finding])"
    by (simp_all add: demo_app_def)
  have stat: "os_Stat demo_os ''/out/Heat (1995).mkv''
                (world (start\<lparr>world := library\<lparr>now := 8\<rparr>\<rparr>)) = None"
    by (simp add: demo_os_def demo_Stat_def library_def)
  have join: "filepath_Join demo_os ''/out'' ''Heat (1995).mkv'' = ''/out/Heat (1995).mkv''"
    by (simp add: demo_os_def demo_Join_def)
  show ?thesis
    unfolding renameByType_def movie renameMovie_def tpl
    by (simp only: option.case Movie.simps Metadata.simps demo_template_heat sum.case name
          heat_file_name Let_def dir join force Rename_def stat)
       simp
qed

lemma heat_refused:
  "scrapeMedia (demo_app strict [failing]) heat (world start) =
     (Inl (foreignError ''connection refused''), library\<lparr>now := 8\<rparr>)"
  by (simp add: scrapeMedia_def demo_app_def failing_def start_def library_def)

lemma pilot_scraped:
  "scrapeMedia (demo_app strict [finding]) pilot (world start) = (Inr found, library\<lparr>now := 8\<rparr>)"
  by (simp add: scrapeMedia_def demo_app_def finding_def start_def library_def)

lemma pilot_not_merged: "Merge demo_ops pilot found = Inl (foreignError ''invalid merge'')"
  by (simp add: demo_ops_def demo_Merge_def pilot_def found_def)

lemma heat_scraped_no_template:
  "scrapeMedia ((demo_app False [finding])\<lparr>Movies_Template := None\<rparr>) heat (world start) =
     (Inr found, library\<lparr>now := 8\<rparr>)"
  by (simp add: scrapeMedia_def demo_app_def finding_def start_def library_def)

lemma heat_no_template:
  "renameByType ((demo_app False [finding])\<lparr>Movies_Template := None\<rparr>) demo_os demo_ops
     copyRenamer merged (start\<lparr>world := library\<lparr>now := 8\<rparr>\<rparr>) =
   (Some (errorString ''missing template for movies''), start\<lparr>world := library\<lparr>now := 8\<rparr>\<rparr>)"
  by (simp add: renameByType_def renameMovie_def demo_ops_def merged_def demo_app_def)

theorem RenameMedia_media_exists_witness:
  "RenameMedia_loop (demo_app False [finding]) demo_os demo_ops copyRenamer [heat] start =
     (None,
      \<lparr>world = library\<lparr>now := 8\<rparr>,
       logs = [\<lparr>Level = WarnLevel,
                Fields = [(''media'', Media merged), (''action'', Str ''copy''),
                          (''reason'', Str ''media already exists'')],
                Message = ''Rename skipped''\<rparr>]\<rparr>) \<and>
   RenameMedia_loop (demo_app True [finding]) demo_os demo_ops copyRenamer [heat] start =
     (Some mediaExistsError, \<lparr>world = library\<lparr>now := 8\<rparr>, logs = []\<rparr>)"
proof -
  have lenient: "\<not> Strict (demo_app False [finding])"
    and strict: "Strict (demo_app True [finding])"
    and act: "action (demo_app False [finding]) = ''copy''"
    by (simp_all add: demo_app_def)
  from lenient act
    RenameMedia_media_exists [OF heat_scraped heat_merged heat_exists, of False "[]"]
  have a: "RenameMedia_loop (demo_app False [finding]) demo_os demo_ops copyRenamer [heat] start =
     (None,
      \<lparr>world = library\<lparr>now := 8\<rparr>,
       logs = [\<lparr>Level = WarnLevel,
                Fields = [(''media'', Media merged), (''action'', Str ''copy''),
                          (''reason'', Str ''media already exists'')],
                Message = ''Rename skipped''\<rparr>]\<rparr>)"
    by (simp add: log_def start_def)
  from strict
    RenameMedia_media_exists [OF heat_scraped heat_merged heat_exists, of True "[]"]
  have b: "RenameMedia_loop (demo_app True [finding]) demo_os demo_ops copyRenamer [heat] start =
     (Some mediaExistsError, \<lparr>world = library\<lparr>now := 8\<rparr>, logs = []\<rparr>)"
    by (simp add: start_def)
  from a b show ?thesis by blast
qed

text \<open>
  The claim as first stated fails in strict mode: the first item finds its destination
  taken, and \<^verbatim>\<open>RenameMedia\<close> returns \<^verbatim>\<open>mediaExistsError\<close> with nothing logged and the
  second item not looked at (one scraper has been asked, not two).
\<close>

theorem RenameMedia_media_exists_counterexample:
  "RenameMedia (demo_app True [finding]) demo_os demo_ops [heat, pilot] start =
     (Some mediaExistsError, \<lparr>world = library\<lparr>now := 8\<rparr>, logs = []\<rparr>)"
proof -
  have "Renamers (action (demo_app True [finding])) =
          Some (copyRenamer :: (fsys, string, demo_media) renamer)"
    by (simp add: demo_app_def Renamers_def)
  moreover have "Strict (demo_app True [finding])"
    by (simp add: demo_app_def)
  ultimately show ?thesis
    by (simp add: RenameMedia_def heat_scraped heat_merged heat_exists) (simp add: start_def)
qed

theorem RenameMedia_failures_witness:
  "RenameMedia_loop (demo_app False [failing]) demo_os demo_ops copyRenamer [heat, pilot] start =
     (Some (foreignError ''connection refused''), \<lparr>world = library\<lparr>now := 8\<rparr>, logs = []\<rparr>) \<and>
   RenameMedia_loop (demo_app False [finding]) demo_os demo_ops copyRenamer [pilot, heat] start =
     (Some (foreignError ''invalid merge''), \<lparr>world = library\<lparr>now := 8\<rparr>, logs = []\<rparr>) \<and>
   RenameMedia_loop ((demo_app False [finding])\<lparr>Movies_Template := None\<rparr>) demo_os demo_ops
       copyRenamer [heat] start =
     (None,
      \<lparr>world = library\<lparr>now := 8\<rparr>,
       logs = [\<lparr>Level = ErrorLevel,
                Fields = [(''media'', Media merged), (''action'', Str ''copy''),
                          (''error'', Err (errorString ''missing template for movies''))],
                Message = ''Rename failed''\<rparr>]\<rparr>)"
proof -
  from heat_refused [of False]
    RenameMedia_failures
      [of "demo_app False [failing]" heat start "foreignError ''connection refused''"
          "library\<lparr>now := 8\<rparr>" demo_os demo_ops copyRenamer "[pilot]"]
  have a: "RenameMedia_loop (demo_app False [failing]) demo_os demo_ops copyRenamer
             [heat, pilot] start =
           (Some (foreignError ''connection refused''),
            \<lparr>world = library\<lparr>now := 8\<rparr>, logs = []\<rparr>)"
    by (simp add: start_def)
  from pilot_scraped [of False] pilot_not_merged
    RenameMedia_failures
      [of "demo_app False [finding]" pilot start "foreignError ''invalid merge''"
          "library\<lparr>now := 8\<rparr>" demo_os demo_ops copyRenamer "[heat]" found]
  have b: "RenameMedia_loop (demo_app False [finding]) demo_os demo_ops copyRenamer
             [pilot, heat] start =
           (Some (foreignError ''invalid merge''),
            \<lparr>world = library\<lparr>now := 8\<rparr>, logs = []\<rparr>)"
    by (simp add: start_def)
  have lenient: "\<not> Strict ((demo_app False [finding])\<lparr>Movies_Template := None\<rparr>)"
    and act: "action ((demo_app False [finding])\<lparr>Movies_Template := None\<rparr>) = ''copy''"
    by (simp_all add: demo_app_def)
  from lenient act heat_scraped_no_template heat_merged heat_no_template
    RenameMedia_failures
      [of "(demo_app False [finding])\<lparr>Movies_Template := None\<rparr>" heat start
          "errorString ''missing template for movies''" "library\<lparr>now := 8\<rparr>" demo_os demo_ops
          copyRenamer "[]" found merged "start\<lparr>world := library\<lparr>now := 8\<rparr>\<rparr>"]
  have c: "RenameMedia_loop ((demo_app False [finding])\<lparr>Movies_Template := None\<rparr>) demo_os
             demo_ops copyRenamer [heat] start =
           (None,
            \<lparr>world = library\<lparr>now := 8\<rparr>,
             logs = [\<lparr>Level = ErrorLevel,
                      Fields = [(''media'', Media merged), (''action'', Str ''copy''),
                                (''error'', Err (errorString ''missing template for movies''))],
                      Message = ''Rename failed''\<rparr>]\<rparr>)"
    by (simp add: log_def start_def)
  from a b c show ?thesis by blast
qed

text \<open>
  The claim as first stated fails: in lenient mode, with a scraper that fails on the first
  item, and with an item that cannot be merged with what was scraped, \<^verbatim>\<open>RenameMedia\<close>
  returns the error, nothing is logged and the second item is not looked at.
\<close>

theorem RenameMedia_failures_counterexample:
  "RenameMedia (demo_app False [failing]) demo_os demo_ops [heat, pilot] start =
     (Some (foreignError ''connection refused''), \<lparr>world = library\<lparr>now := 8\<rparr>, logs = []\<rparr>) \<and>
   RenameMedia (demo_app False [finding]) demo_os demo_ops [pilot, heat] start =
     (Some (foreignError ''invalid merge''), \<lparr>world = library\<lparr>now := 8\<rparr>, logs = []\<rparr>)"
proof -
  have r: "Renamers (action (demo_app False ss)) =
          Some (copyRenamer :: (fsys, string, demo_media) renamer)" for ss
    by (simp add: demo_app_def Renamers_def)
  show ?thesis
    by (simp add: RenameMedia_def r heat_refused pilot_scraped pilot_not_merged)
       (simp add: start_def)
qed

end
